theory Spec2Isabelle
  imports Complex_Main
begin

section \<open>VibeCharts: a shallow embedding of \<^verbatim>\<open>assets/js/VibeCharts.js\<close>\<close>

text \<open>
  The class \<^verbatim>\<open>VibeCharts\<close> draws charts on an HTML canvas. The embedding follows the
  JavaScript source function by function and keeps its names. What it models:
  \<^item> the values the code computes with: property lookup on object literals (with the
    members every plain object inherits), truthiness and \<^verbatim>\<open>||\<close>, the \<^verbatim>\<open>+\<close> operator on
    numbers, strings and objects, conversion to string, IEEE double arithmetic where the
    code multiplies by fractions;
  \<^item> the fields of an instance that the code reads and writes (\<^verbatim>\<open>options\<close>,
    \<^verbatim>\<open>canvas\<close>/\<^verbatim>\<open>ctx\<close>, \<^verbatim>\<open>isLoading\<close>), with every exception as a value of a sum type.
  What it leaves out: the pixels. Calls on the 2D context only paint; they do not change the
  fields of the instance, and the model assumes they do not throw. Numbers supplied as data
  are integers (on which double arithmetic is exact below \<open>2^53\<close>); strings are lists of
  8-bit characters.
\<close>

subsection \<open>Property lookup on an object literal\<close>

text \<open>
  \<^verbatim>\<open>table[key]\<close> on an object literal finds the literal's own properties first and then the
  members inherited from \<^verbatim>\<open>Object.prototype\<close>. The inherited members are functions (and, for
  \<^verbatim>\<open>__proto__\<close>, the prototype object itself): all of them are truthy.
\<close>

datatype 'a lookup = Own 'a | Inherited string | Absent

definition object_prototype_keys :: "string list" where
  "object_prototype_keys =
     [''constructor'', ''__defineGetter__'', ''__defineSetter__'', ''hasOwnProperty'',
      ''__lookupGetter__'', ''__lookupSetter__'', ''isPrototypeOf'', ''propertyIsEnumerable'',
      ''toString'', ''valueOf'', ''__proto__'', ''toLocaleString'']"

definition get_prop :: "(string \<times> 'a) list \<Rightarrow> string \<Rightarrow> 'a lookup" where
  "get_prop tbl k =
     (case map_of tbl k of
        Some v \<Rightarrow> Own v
      | None \<Rightarrow> if k \<in> set object_prototype_keys then Inherited k else Absent)"

subsection \<open>Decimal rendering of integers\<close>

definition digit_char :: "nat \<Rightarrow> char" where
  "digit_char d = ''0123456789abcdef'' ! d"

fun show_nat :: "nat \<Rightarrow> string" where
  "show_nat n = (if n < 10 then [digit_char n] else show_nat (n div 10) @ [digit_char (n mod 10)])"

declare show_nat.simps [simp del]

definition show_int :: "int \<Rightarrow> string" where
  "show_int i = (if i < 0 then CHR ''-'' # show_nat (nat (- i)) else show_nat (nat i))"

subsection \<open>Series entries and the values drawn from them\<close>

text \<open>
  A series entry is a bare number or a record \<^verbatim>\<open>{label, value}\<close>; either field of the
  record may be missing. (The fields \<^verbatim>\<open>values\<close> and \<^verbatim>\<open>max\<close> that only the heatmap and the
  gauge read are not part of the model.)
\<close>

datatype entry = Bare int | Record "string option" "int option"

datatype jsval = Number int | Str string | Object entry

text \<open>
  \<^verbatim>\<open>item.value || item\<close>, the expression by which every drawing routine reads an entry.
  A number has no property \<^verbatim>\<open>value\<close>, so the left operand is \<^verbatim>\<open>undefined\<close> and the result
  is the number. For a record the left operand is the field; \<^verbatim>\<open>undefined\<close> and \<open>0\<close> are
  falsy, and then the result is the right operand: the record itself.
\<close>

fun entry_value :: "entry \<Rightarrow> jsval" where
  "entry_value (Bare n) = Number n"
| "entry_value (Record l None) = Object (Record l None)"
| "entry_value (Record l (Some v)) = (if v \<noteq> 0 then Number v else Object (Record l (Some v)))"

text \<open>
  Conversion to string: a number prints in decimal, a plain object as
  \<^verbatim>\<open>[object Object]\<close>.
\<close>

fun to_string :: "jsval \<Rightarrow> string" where
  "to_string (Number n) = show_int n"
| "to_string (Str s) = s"
| "to_string (Object e) = ''[object Object]''"

text \<open>
  The operator \<^verbatim>\<open>+\<close>: addition on two numbers; as soon as one operand is a string or an
  object (which converts to a string), concatenation.
\<close>

fun js_add :: "jsval \<Rightarrow> jsval \<Rightarrow> jsval" where
  "js_add (Number a) (Number b) = Number (a + b)"
| "js_add x y = Str (to_string x @ to_string y)"

text \<open>
  \<^verbatim>\<open>Math.max\<close> and \<^verbatim>\<open>Math.min\<close> convert each argument to a number. An object converts to
  \<^verbatim>\<open>NaN\<close>; so does every string of this model, since strings only arise here from
  concatenation with \<^verbatim>\<open>[object Object]\<close>. One \<^verbatim>\<open>NaN\<close> argument makes the result \<^verbatim>\<open>NaN\<close>;
  \<^verbatim>\<open>Math.max()\<close> of no argument is \<^verbatim>\<open>-Infinity\<close>.
\<close>

datatype extnum = Fin int | NegInfinity | NaN

fun to_number :: "jsval \<Rightarrow> extnum" where
  "to_number (Number n) = Fin n"
| "to_number (Str s) = NaN"
| "to_number (Object e) = NaN"

fun max2 :: "extnum \<Rightarrow> extnum \<Rightarrow> extnum" where
  "max2 NaN y = NaN"
| "max2 x NaN = NaN"
| "max2 NegInfinity y = y"
| "max2 x NegInfinity = x"
| "max2 (Fin a) (Fin b) = Fin (max a b)"

definition Math_max :: "jsval list \<Rightarrow> extnum" where
  "Math_max xs = foldl max2 NegInfinity (map to_number xs)"

text \<open>\<^verbatim>\<open>Math.min(...xs, 0)\<close>: the minimum starts from the trailing argument \<open>0\<close>.\<close>

fun min2 :: "extnum \<Rightarrow> extnum \<Rightarrow> extnum" where
  "min2 NaN y = NaN"
| "min2 x NaN = NaN"
| "min2 NegInfinity y = NegInfinity"
| "min2 x NegInfinity = NegInfinity"
| "min2 (Fin a) (Fin b) = Fin (min a b)"

definition Math_min_0 :: "jsval list \<Rightarrow> extnum" where
  "Math_min_0 xs = foldl min2 (Fin 0) (map to_number xs)"

subsection \<open>Double-precision arithmetic\<close>

text \<open>
  \<^verbatim>\<open>getColor\<close> multiplies by the literal \<^verbatim>\<open>0.15\<close>, which is not a binary fraction: the
  products are rounded as IEEE 754 binary64 prescribes. A finite double is a rational
  number, so the model computes with rationals and rounds after each operation:
  \<open>fl x\<close> is the double nearest to \<open>x\<close>, ties to the even significand (53 bits). Only the
  normal range is modelled; the values that occur here are far from overflow and underflow.
\<close>

function log2i :: "int \<Rightarrow> int" where
  "log2i n = (if n < 2 then 0 else 1 + log2i (n div 2))"
  by pat_completeness auto
termination
  by (relation "measure nat") auto

declare log2i.simps [simp del]

definition pow2 :: "int \<Rightarrow> rat" where
  "pow2 e = (if 0 \<le> e then 2 ^ nat e else 1 / 2 ^ nat (- e))"

text \<open>The binary exponent of a positive rational: \<open>pow2 e \<le> x < pow2 (e + 1)\<close>.\<close>

definition ilog2 :: "rat \<Rightarrow> int" where
  "ilog2 x =
     (let (p, q) = quotient_of x;
          e = log2i p - log2i q
      in if pow2 e \<le> x then e else e - 1)"

definition round_even :: "rat \<Rightarrow> int" where
  "round_even x =
     (let f = \<lfloor>x\<rfloor>; d = x - of_int f
      in if d < 1 / 2 then f else if 1 / 2 < d then f + 1 else if even f then f else f + 1)"

definition fl :: "rat \<Rightarrow> rat" where
  "fl x =
     (if x = 0 then 0
      else let u = pow2 (ilog2 \<bar>x\<bar> - 52) in of_int (round_even (x / u)) * u)"

definition fmul :: "rat \<Rightarrow> rat \<Rightarrow> rat" where
  "fmul a b = fl (a * b)"

definition fsub :: "rat \<Rightarrow> rat \<Rightarrow> rat" where
  "fsub a b = fl (a - b)"

text \<open>\<^verbatim>\<open>Math.round\<close>: the nearest integer, a tie going up.\<close>

definition Math_round :: "rat \<Rightarrow> int" where
  "Math_round x = \<lfloor>x + 1 / 2\<rfloor>"

subsection \<open>Colours\<close>

datatype rgb = Rgb (red: nat) (green: nat) (blue: nat)

text \<open>
  \<^verbatim>\<open>hexToRgb\<close> matches \<^verbatim>\<open>/^#?([a-f\d]{2})([a-f\d]{2})([a-f\d]{2})$/i\<close>: an optional
  \<^verbatim>\<open>#\<close>, then exactly six hexadecimal digits of either case up to the end of the input.
  (If the \<^verbatim>\<open>#\<close> is not consumed, the match fails at once, since \<^verbatim>\<open>#\<close> is no digit.)
  \<open>hex_exec\<close> returns the three captured groups.
\<close>

definition is_hex_digit :: "char \<Rightarrow> bool" where
  "is_hex_digit c = (c \<in> set ''0123456789abcdefABCDEF'')"

definition hex_exec :: "string \<Rightarrow> (string \<times> string \<times> string) option" where
  "hex_exec hex =
     (let t = (case hex of [] \<Rightarrow> [] | c # cs \<Rightarrow> if c = CHR ''#'' then cs else c # cs)
      in if length t = 6 \<and> list_all is_hex_digit t
         then Some (take 2 t, take 2 (drop 2 t), drop 4 t) else None)"

text \<open>\<^verbatim>\<open>parseInt(s, 16)\<close> on a string of hexadecimal digits.\<close>

definition hex_digit_value :: "char \<Rightarrow> nat" where
  "hex_digit_value c =
     (let n = (of_char c :: nat)
      in if 48 \<le> n \<and> n \<le> 57 then n - 48
         else if 97 \<le> n \<and> n \<le> 102 then n - 87
         else n - 55)"

definition parseInt16 :: "string \<Rightarrow> nat" where
  "parseInt16 s = foldl (\<lambda>acc c. 16 * acc + hex_digit_value c) 0 s"

definition hexToRgb :: "string \<Rightarrow> rgb" where
  "hexToRgb hex =
     (case hex_exec hex of
        Some (g1, g2, g3) \<Rightarrow> Rgb (parseInt16 g1) (parseInt16 g2) (parseInt16 g3)
      | None \<Rightarrow> Rgb 0 0 0)"

text \<open>
  \<^verbatim>\<open>adjustBrightness(color, factor)\<close>. The colour may be \<^verbatim>\<open>undefined\<close> (the first element
  of an empty palette); the regular expression then runs on the text \<^verbatim>\<open>undefined\<close>.
\<close>

definition string_of_arg :: "string option \<Rightarrow> string" where
  "string_of_arg a = (case a of None \<Rightarrow> ''undefined'' | Some s \<Rightarrow> s)"

definition scale_channel :: "nat \<Rightarrow> rat \<Rightarrow> nat" where
  "scale_channel c factor = nat (min 255 (max 0 (Math_round (fmul (of_nat c) factor))))"

definition rgb_text :: "nat \<Rightarrow> nat \<Rightarrow> nat \<Rightarrow> string" where
  "rgb_text r g b = ''rgb('' @ show_nat r @ '','' @ show_nat g @ '','' @ show_nat b @ '')''"

definition adjustBrightness :: "string option \<Rightarrow> rat \<Rightarrow> string" where
  "adjustBrightness color factor =
     (let c = hexToRgb (string_of_arg color)
      in rgb_text (scale_channel (red c) factor) (scale_channel (green c) factor)
           (scale_channel (blue c) factor))"

subsection \<open>The configuration\<close>

text \<open>
  \<^verbatim>\<open>this.options\<close>: the fields the modelled code reads. (The remaining options, such as
  \<^verbatim>\<open>lineFill\<close>, \<^verbatim>\<open>gradient\<close>, \<^verbatim>\<open>height\<close> or \<^verbatim>\<open>animationDuration\<close>, only reach canvas calls.)
  A colour field holds \<open>None\<close> when the JavaScript property is \<^verbatim>\<open>undefined\<close>;
  \<^verbatim>\<open>gridColor\<close> is not among the defaults and is first set by \<^verbatim>\<open>applyTheme\<close>.
\<close>

datatype custom_theme =
  Custom (ct_backgroundColor: "string option") (ct_textColor: "string option")
    (ct_gridColor: "string option")

record config =
  type :: string
  data :: "entry list"
  colors :: "string list"
  barColorMode :: string
  textColor :: "string option"
  backgroundColor :: "string option"
  style :: string
  theme :: string
  customTheme :: "custom_theme option"
  title :: string
  showLegend :: bool
  showPlaceholder :: bool
  gridColor :: "string option"

definition default_options :: config where
  "default_options =
     \<lparr>type = ''bar'', data = [],
      colors = [''#667eea'', ''#764ba2'', ''#f093fb'', ''#4facfe'', ''#43e97b'', ''#fa709a'',
                ''#fee140''],
      barColorMode = ''series'', textColor = Some ''#333333'',
      backgroundColor = Some ''#ffffff'', style = ''default'', theme = ''dark'',
      customTheme = None, title = [], showLegend = True, showPlaceholder = True,
      gridColor = None\<rparr>"

text \<open>
  The options a caller passes are an object literal: a list of settings. The spread
  \<^verbatim>\<open>{...base, ...patch}\<close> copies each property of the patch over the base, in order.
\<close>

datatype setting =
    Set_type string
  | Set_data "entry list"
  | Set_colors "string list"
  | Set_barColorMode string
  | Set_textColor string
  | Set_backgroundColor string
  | Set_style string
  | Set_theme string
  | Set_customTheme "custom_theme option"
  | Set_title string
  | Set_showLegend bool
  | Set_showPlaceholder bool

fun set_option :: "config \<Rightarrow> setting \<Rightarrow> config" where
  "set_option opts (Set_type v) = opts\<lparr>type := v\<rparr>"
| "set_option opts (Set_data v) = opts\<lparr>data := v\<rparr>"
| "set_option opts (Set_colors v) = opts\<lparr>colors := v\<rparr>"
| "set_option opts (Set_barColorMode v) = opts\<lparr>barColorMode := v\<rparr>"
| "set_option opts (Set_textColor v) = opts\<lparr>textColor := Some v\<rparr>"
| "set_option opts (Set_backgroundColor v) = opts\<lparr>backgroundColor := Some v\<rparr>"
| "set_option opts (Set_style v) = opts\<lparr>style := v\<rparr>"
| "set_option opts (Set_theme v) = opts\<lparr>theme := v\<rparr>"
| "set_option opts (Set_customTheme v) = opts\<lparr>customTheme := v\<rparr>"
| "set_option opts (Set_title v) = opts\<lparr>title := v\<rparr>"
| "set_option opts (Set_showLegend v) = opts\<lparr>showLegend := v\<rparr>"
| "set_option opts (Set_showPlaceholder v) = opts\<lparr>showPlaceholder := v\<rparr>"

definition spread :: "config \<Rightarrow> setting list \<Rightarrow> config" where
  "spread base patch = foldl set_option base patch"

subsection \<open>Colour assignment and corner radius\<close>

text \<open>
  \<^verbatim>\<open>colors[index % colors.length]\<close>: on an empty palette the index is \<^verbatim>\<open>NaN\<close> and the
  element \<^verbatim>\<open>undefined\<close>.
\<close>

definition cycle :: "string list \<Rightarrow> nat \<Rightarrow> string option" where
  "cycle cs index = (if cs = [] then None else Some (cs ! (index mod length cs)))"

definition first_color :: "string list \<Rightarrow> string option" where
  "first_color cs = (case cs of [] \<Rightarrow> None | c # _ \<Rightarrow> Some c)"

text \<open>The literal \<^verbatim>\<open>0.15\<close> denotes the nearest double.\<close>

definition lit_0_15 :: rat where
  "lit_0_15 = fl (15 / 100)"

definition getColor :: "config \<Rightarrow> nat \<Rightarrow> string \<Rightarrow> string option" where
  "getColor opts index mode =
     (if mode = ''individual'' then cycle (colors opts) index
      else if mode = ''shade'' then
        Some (adjustBrightness (first_color (colors opts))
                (fsub 1 (fmul (of_nat index) lit_0_15)))
      else cycle (colors opts) index)"

text \<open>
  \<^verbatim>\<open>getRadius\<close>: \<^verbatim>\<open>radii[this.options.style] || 4\<close>. The result is a number, or the
  inherited member that the lookup found.
\<close>

datatype radius = Radius nat | Member string

definition radii :: "(string \<times> nat) list" where
  "radii = [(''sharp'', 0), (''default'', 4), (''soft'', 18), (''rounded'', 51)]"

definition getRadius :: "config \<Rightarrow> radius" where
  "getRadius opts =
     (case get_prop radii (style opts) of
        Own r \<Rightarrow> if r \<noteq> 0 then Radius r else Radius 4
      | Inherited k \<Rightarrow> Member k
      | Absent \<Rightarrow> Radius 4)"

subsection \<open>Theme resolution\<close>

text \<open>\<^verbatim>\<open>a || b\<close> on text: \<^verbatim>\<open>undefined\<close> and the empty string are falsy.\<close>

definition truthy :: "string option \<Rightarrow> bool" where
  "truthy a = (a \<noteq> None \<and> a \<noteq> Some [])"

definition or_else :: "string option \<Rightarrow> string option \<Rightarrow> string option" where
  "or_else a b = (if truthy a then a else b)"

definition dark :: "string \<times> string \<times> string" where
  "dark = (''#1a1a2e'', ''#eee'', ''#2a2a3e'')"

definition themes :: "(string \<times> string \<times> string \<times> string) list" where
  "themes =
     [(''lite'', ''#ffffff'', ''#333333'', ''#e0e0e0''),
      (''dark'', dark),
      (''gradient'', ''linear-gradient(135deg, #667eea 0%, #764ba2 100%)'', ''#ffffff'',
         ''rgba(255,255,255,0.1)''),
      (''glass'', ''rgba(255, 255, 255, 0.1)'', ''#333333'', ''rgba(0,0,0,0.05)'')]"

text \<open>
  \<^verbatim>\<open>themes[this.options.theme] || themes.dark\<close>, as the three fields read from the result.
  An inherited member is truthy and has none of the three fields.
\<close>

definition theme_fields :: "string \<times> string \<times> string \<Rightarrow> string option \<times> string option \<times> string option"
  where "theme_fields t = (case t of (bg, tx, gr) \<Rightarrow> (Some bg, Some tx, Some gr))"

definition theme_of :: "string \<Rightarrow> string option \<times> string option \<times> string option" where
  "theme_of name =
     (case get_prop themes name of
        Own t \<Rightarrow> theme_fields t
      | Inherited k \<Rightarrow> (None, None, None)
      | Absent \<Rightarrow> theme_fields dark)"

definition applyTheme :: "config \<Rightarrow> config" where
  "applyTheme opts =
     (case customTheme opts of
        Some ct \<Rightarrow>
          opts\<lparr>backgroundColor := or_else (ct_backgroundColor ct) (backgroundColor opts),
               textColor := or_else (ct_textColor ct) (textColor opts),
               gridColor := or_else (ct_gridColor ct) (Some ''rgba(128, 128, 128, 0.2)'')\<rparr>
      | None \<Rightarrow>
          (case theme_of (theme opts) of (bg, tx, gr) \<Rightarrow>
             opts\<lparr>backgroundColor :=
                    (if \<not> truthy (backgroundColor opts) \<or> backgroundColor opts = Some ''#ffffff''
                     then bg else backgroundColor opts),
                  textColor :=
                    (if \<not> truthy (textColor opts) \<or> textColor opts = Some ''#333333''
                     then tx else textColor opts),
                  gridColor := gr\<rparr>))"

subsection \<open>The instance and its life cycle\<close>

text \<open>
  The fields of an instance that the code reads and writes. \<open>has_canvas\<close> says that
  \<^verbatim>\<open>this.canvas\<close> and \<^verbatim>\<open>this.ctx\<close> are set (\<^verbatim>\<open>createCanvas\<close> sets both; before, both
  are \<^verbatim>\<open>null\<close>). The document is the list of the element ids it contains. An exception is
  the left summand of the result.
\<close>

datatype error = Error string | TypeError string

record chart =
  options :: config
  has_canvas :: bool
  isLoading :: bool

definition and_then :: "error + 'a \<Rightarrow> ('a \<Rightarrow> error + 'b) \<Rightarrow> error + 'b" where
  "and_then m f = (case m of Inl e \<Rightarrow> Inl e | Inr x \<Rightarrow> f x)"

text \<open>
  The method \<^verbatim>\<open>showPlaceholder\<close> is \<open>showPlaceholder_m\<close> here, since the option of the same
  name is a field of the configuration. Of the two methods only the flag \<^verbatim>\<open>isLoading\<close>
  is modelled, not the markup.
\<close>

definition showPlaceholder_m :: "chart \<Rightarrow> chart" where
  "showPlaceholder_m c = c\<lparr>isLoading := True\<rparr>"

definition hidePlaceholder :: "chart \<Rightarrow> chart" where
  "hidePlaceholder c = c\<lparr>isLoading := False\<rparr>"

text \<open>
  \<^verbatim>\<open>createCanvas\<close> returns at once while the placeholder is shown. Otherwise it calls
  \<^verbatim>\<open>this.options.backgroundColor.includes('gradient')\<close>, which throws when the colour is
  \<^verbatim>\<open>undefined\<close>, and then creates the canvas and its context.
\<close>

definition createCanvas :: "chart \<Rightarrow> error + chart" where
  "createCanvas c =
     (if isLoading c then Inr c
      else case backgroundColor (options c) of
             None \<Rightarrow> Inl (TypeError ''Cannot read properties of undefined (reading includes)'')
           | Some bg \<Rightarrow> Inr (c\<lparr>has_canvas := True\<rparr>))"

text \<open>
  \<^verbatim>\<open>init\<close> applies the theme, creates the canvas and schedules \<open>init_timeout\<close> (below) to
  run 500 ms later.
\<close>

definition init :: "chart \<Rightarrow> error + chart" where
  "init c = createCanvas (c\<lparr>options := applyTheme (options c)\<rparr>)"

text \<open>
  The constructor. After the steps modelled here it calls \<^verbatim>\<open>setupResponsive\<close>, which only
  registers listeners.
\<close>

definition not_found :: "string \<Rightarrow> error" where
  "not_found containerId = Error (''Container with id \"'' @ containerId @ ''\" not found'')"

definition constructor :: "string list \<Rightarrow> string \<Rightarrow> setting list \<Rightarrow> error + chart" where
  "constructor document containerId opts =
     (if containerId \<notin> set document then Inl (not_found containerId)
      else let c0 = \<lparr>options = spread default_options opts, has_canvas = False,
                      isLoading = False\<rparr>;
               c1 = (if showPlaceholder (options c0) then showPlaceholder_m c0 else c0)
           in init c1)"

definition updateOptions :: "chart \<Rightarrow> setting list \<Rightarrow> error + chart" where
  "updateOptions c newOptions = init (c\<lparr>options := spread (options c) newOptions\<rparr>)"

subsection \<open>Rendering\<close>

text \<open>
  A routine that paints reads \<^verbatim>\<open>this.canvas\<close> or \<^verbatim>\<open>this.ctx\<close> first, which throws when they
  are \<^verbatim>\<open>null\<close>; apart from that it leaves the instance as it is.
\<close>

definition paints :: "chart \<Rightarrow> error + chart" where
  "paints c =
     (if has_canvas c then Inr c else Inl (TypeError ''Cannot read properties of null''))"

definition clear :: "chart \<Rightarrow> error + chart" where "clear = paints"
definition drawTitle :: "chart \<Rightarrow> error + chart" where "drawTitle = paints"
definition drawBar :: "chart \<Rightarrow> error + chart" where "drawBar = paints"
definition drawHorizontalBar :: "chart \<Rightarrow> error + chart" where "drawHorizontalBar = paints"
definition drawLine :: "chart \<Rightarrow> error + chart" where "drawLine = paints"
definition drawArea :: "chart \<Rightarrow> error + chart" where "drawArea = paints"
definition drawPie :: "chart \<Rightarrow> error + chart" where "drawPie = paints"
definition drawDonut :: "chart \<Rightarrow> error + chart" where "drawDonut = paints"
definition drawRadar :: "chart \<Rightarrow> error + chart" where "drawRadar = paints"
definition drawHeatmap :: "chart \<Rightarrow> error + chart" where "drawHeatmap = paints"
definition drawGauge :: "chart \<Rightarrow> error + chart" where "drawGauge = paints"
definition drawWaterfall :: "chart \<Rightarrow> error + chart" where "drawWaterfall = paints"
definition drawLegend :: "chart \<Rightarrow> error + chart" where "drawLegend = paints"

text \<open>The four routines with an empty body.\<close>

definition drawScatter :: "chart \<Rightarrow> error + chart" where "drawScatter c = Inr c"
definition drawBubble :: "chart \<Rightarrow> error + chart" where "drawBubble c = Inr c"
definition drawPolar :: "chart \<Rightarrow> error + chart" where "drawPolar c = Inr c"
definition drawTreemap :: "chart \<Rightarrow> error + chart" where "drawTreemap c = Inr c"

definition chartTypes :: "(string \<times> (chart \<Rightarrow> error + chart)) list" where
  "chartTypes =
     [(''bar'', drawBar), (''horizontalBar'', drawHorizontalBar), (''line'', drawLine),
      (''area'', drawArea), (''pie'', drawPie), (''donut'', drawDonut),
      (''scatter'', drawScatter), (''bubble'', drawBubble), (''radar'', drawRadar),
      (''polar'', drawPolar), (''heatmap'', drawHeatmap), (''treemap'', drawTreemap),
      (''gauge'', drawGauge), (''waterfall'', drawWaterfall)]"

text \<open>
  \<^verbatim>\<open>chartTypes[type]()\<close> when the lookup finds an inherited member: \<^verbatim>\<open>__proto__\<close> is an
  object and cannot be called; \<^verbatim>\<open>__defineGetter__\<close> and \<^verbatim>\<open>__defineSetter__\<close> reject a
  missing function argument; the other members return.
\<close>

definition call_inherited :: "string \<Rightarrow> chart \<Rightarrow> error + chart" where
  "call_inherited k c =
     (if k = ''__proto__'' then Inl (TypeError ''chartTypes[this.options.type] is not a function'')
      else if k = ''__defineGetter__'' \<or> k = ''__defineSetter__''
      then Inl (TypeError ''Expecting function'')
      else Inr c)"

text \<open>
  The methods the class declares. A call \<^verbatim>\<open>this.m()\<close> of a name that is neither declared
  nor inherited reads \<^verbatim>\<open>undefined\<close> and throws.
\<close>

definition methods :: "(string \<times> (chart \<Rightarrow> error + chart)) list" where
  "methods =
     [(''clear'', clear), (''drawTitle'', drawTitle), (''drawBar'', drawBar),
      (''drawHorizontalBar'', drawHorizontalBar), (''drawLine'', drawLine),
      (''drawArea'', drawArea), (''drawPie'', drawPie), (''drawDonut'', drawDonut),
      (''drawRadar'', drawRadar), (''drawGauge'', drawGauge), (''drawHeatmap'', drawHeatmap),
      (''drawWaterfall'', drawWaterfall), (''drawScatter'', drawScatter),
      (''drawBubble'', drawBubble), (''drawPolar'', drawPolar),
      (''drawTreemap'', drawTreemap), (''drawLegend'', drawLegend)]"

definition call_method :: "string \<Rightarrow> chart \<Rightarrow> error + chart" where
  "call_method name c =
     (case map_of methods name of
        Some m \<Rightarrow> m c
      | None \<Rightarrow> Inl (TypeError (''this.'' @ name @ '' is not a function'')))"

definition render :: "chart \<Rightarrow> error + chart" where
  "render c =
     (if isLoading c then Inr c
      else
        and_then (call_method ''clear'' c) (\<lambda>c.
        and_then (if title (options c) \<noteq> [] then call_method ''drawTitle'' c else Inr c) (\<lambda>c.
        and_then (case get_prop chartTypes (type (options c)) of
                    Own draw \<Rightarrow> draw c
                  | Inherited k \<Rightarrow> call_inherited k c
                  | Absent \<Rightarrow> Inr c) (\<lambda>c.
        if showLegend (options c) \<and> 0 < length (data (options c))
        then call_method ''drawExternalLegend'' c else Inr c))))"

text \<open>The callback that \<^verbatim>\<open>init\<close> schedules.\<close>

definition init_timeout :: "chart \<Rightarrow> error + chart" where
  "init_timeout c = render (hidePlaceholder c)"

text \<open>
  \<^verbatim>\<open>loadData\<close> with a literal data sequence (the branch that fetches from a locator is not
  modelled), and the callback it schedules.
\<close>

definition loadData :: "chart \<Rightarrow> entry list \<Rightarrow> chart" where
  "loadData c source = (showPlaceholder_m c)\<lparr>options := (options c)\<lparr>data := source\<rparr>\<rparr>"

definition loadData_timeout :: "chart \<Rightarrow> error + chart" where
  "loadData_timeout c = and_then (createCanvas (hidePlaceholder c)) render"

subsection \<open>What the donut and the waterfall compute\<close>

text \<open>
  \<^verbatim>\<open>drawDonut\<close>: the total is \<^verbatim>\<open>data.reduce((sum, item) => sum + (item.value || item), 0)\<close>,
  and the text at the centre is \<^verbatim>\<open>fillText(total, ...)\<close>, the total converted to a string.
\<close>

definition donut_total :: "entry list \<Rightarrow> jsval" where
  "donut_total items = foldl (\<lambda>sum item. js_add sum (entry_value item)) (Number 0) items"

definition donut_center_text :: "entry list \<Rightarrow> string" where
  "donut_center_text items = to_string (donut_total items)"

text \<open>
  \<^verbatim>\<open>drawWaterfall\<close>: the values, their running totals (the callback of \<^verbatim>\<open>reduce\<close> pushes
  \<^verbatim>\<open>i === 0 ? val : acc[i - 1] + val\<close>; the accumulator has \<open>i\<close> elements when index \<open>i\<close> is
  processed), and the two bounds of the range.
\<close>

definition waterfall_values :: "entry list \<Rightarrow> jsval list" where
  "waterfall_values items = map entry_value items"

definition push_total :: "jsval list \<Rightarrow> nat \<times> jsval \<Rightarrow> jsval list" where
  "push_total acc iv =
     (case iv of (i, val) \<Rightarrow> acc @ [if i = 0 then val else js_add (acc ! (i - 1)) val])"

definition cumulative :: "jsval list \<Rightarrow> jsval list" where
  "cumulative vals = foldl push_total [] (enumerate 0 vals)"

definition waterfall_cumulative :: "entry list \<Rightarrow> jsval list" where
  "waterfall_cumulative items = cumulative (waterfall_values items)"

definition waterfall_maxValue :: "entry list \<Rightarrow> extnum" where
  "waterfall_maxValue items = Math_max (waterfall_cumulative items)"

definition waterfall_minValue :: "entry list \<Rightarrow> extnum" where
  "waterfall_minValue items = Math_min_0 (waterfall_cumulative items)"

subsection \<open>Notions of the specification\<close>

text \<open>
  The definitions of this subsection are not in the source. They put the words of the
  specification into HOL, so that the code can be compared with them.

  A valid 6-digit hex colour: six hexadecimal digits, with or without a leading \<^verbatim>\<open>#\<close>.
\<close>

definition valid_hex6 :: "string \<Rightarrow> bool" where
  "valid_hex6 s =
     (\<exists>ds. length ds = 6 \<and> set ds \<subseteq> set ''0123456789abcdefABCDEF'' \<and>
           (s = ds \<or> s = CHR ''#'' # ds))"

text \<open>
  Re-encoding a triple as hex: \<^verbatim>\<open>#\<close> and two lower-case digits for each channel.
  \<open>canonical\<close> is the spelling of a hex colour in that form.
\<close>

definition hex2 :: "nat \<Rightarrow> string" where
  "hex2 n = [digit_char (n div 16), digit_char (n mod 16)]"

definition rgbToHex :: "rgb \<Rightarrow> string" where
  "rgbToHex c = CHR ''#'' # hex2 (red c) @ hex2 (green c) @ hex2 (blue c)"

definition lower :: "char \<Rightarrow> char" where
  "lower c =
     (if c = CHR ''A'' then CHR ''a'' else if c = CHR ''B'' then CHR ''b''
      else if c = CHR ''C'' then CHR ''c'' else if c = CHR ''D'' then CHR ''d''
      else if c = CHR ''E'' then CHR ''e'' else if c = CHR ''F'' then CHR ''f'' else c)"

definition canonical :: "string \<Rightarrow> string" where
  "canonical s =
     CHR ''#'' # map lower (case s of [] \<Rightarrow> [] | c # cs \<Rightarrow> if c = CHR ''#'' then cs else c # cs)"

text \<open>
  The shade of a channel at index \<open>i\<close>: the channel times the factor \<open>1 - 0.15 * i\<close>,
  rounded and clamped to \<open>[0, 255]\<close>. \<open>shade_channel\<close> evaluates the expression in double
  arithmetic, \<open>shade_channel_exact\<close> in exact arithmetic.
\<close>

definition shade_factor :: "nat \<Rightarrow> rat" where
  "shade_factor i = fl (1 - fl (of_nat i * fl (15 / 100)))"

definition shade_channel :: "nat \<Rightarrow> nat \<Rightarrow> nat" where
  "shade_channel c i = nat (min 255 (max 0 \<lfloor>fl (of_nat c * shade_factor i) + 1 / 2\<rfloor>))"

definition shade_channel_exact :: "nat \<Rightarrow> nat \<Rightarrow> nat" where
  "shade_channel_exact c i =
     nat (min 255 (max 0 \<lfloor>(of_nat c :: rat) * (1 - 15 / 100 * of_nat i) + 1 / 2\<rfloor>))"

text \<open>A routine keeps the instance when it returns it unchanged whenever it returns.\<close>

definition keeps :: "(chart \<Rightarrow> error + chart) \<Rightarrow> bool" where
  "keeps f = (\<forall>c c'. f c = Inr c' \<longrightarrow> c' = c)"

section \<open>Properties\<close>

subsection \<open>Corner radius\<close>

lemma getRadius_own:
  "getRadius (opts\<lparr>style := ''default''\<rparr>) = Radius 4"
  "getRadius (opts\<lparr>style := ''soft''\<rparr>) = Radius 18"
  "getRadius (opts\<lparr>style := ''rounded''\<rparr>) = Radius 51"
  by (simp_all add: getRadius_def get_prop_def radii_def)

lemma getRadius_unknown:
  "style opts \<notin> fst ` set radii \<Longrightarrow> style opts \<notin> set object_prototype_keys \<Longrightarrow>
     getRadius opts = Radius 4"
  by (auto simp: getRadius_def get_prop_def image_iff split: option.splits dest!: map_of_SomeD)

lemma getRadius_inherited:
  "getRadius (opts\<lparr>style := ''constructor''\<rparr>) = Member ''constructor''"
  by (simp add: getRadius_def get_prop_def radii_def object_prototype_keys_def)

text \<open>
  Claim C1: the style tag \<^verbatim>\<open>sharp\<close> maps to the radius 0 (and \<^verbatim>\<open>default\<close> to 4,
  \<^verbatim>\<open>soft\<close> to 18, \<^verbatim>\<open>rounded\<close> to 51, an unknown tag to 4). The code does not do this for
  \<^verbatim>\<open>sharp\<close>: the table holds 0, which is falsy, so \<^verbatim>\<open>radii[style] || 4\<close> is 4.
\<close>

theorem getRadius_sharp: "getRadius (opts\<lparr>style := ''sharp''\<rparr>) = Radius 4"
  by (simp add: getRadius_def get_prop_def radii_def)

subsection \<open>The value of an entry\<close>

lemma entry_value_number:
  "entry_value (Bare n) = Number n"
  "v \<noteq> 0 \<Longrightarrow> entry_value (Record l (Some v)) = Number v"
  by simp_all

text \<open>
  Claim C3: the value drawn for a record entry is its field \<^verbatim>\<open>value\<close>, also when the
  field is 0. The code does not do this: for \<^verbatim>\<open>{label, value: 0}\<close> the expression
  \<^verbatim>\<open>item.value || item\<close> is the record itself, not the number 0.
\<close>

theorem entry_value_zero_record:
  "entry_value (Record l (Some 0)) = Object (Record l (Some 0)) \<and>
   entry_value (Record l (Some 0)) \<noteq> Number 0"
  by simp

subsection \<open>Colour assignment\<close>

text \<open>
  Claim C4: on a non-empty palette, \<^verbatim>\<open>getColor\<close> in mode \<^verbatim>\<open>series\<close> and in mode
  \<^verbatim>\<open>individual\<close> both return the palette's element at \<open>i mod length\<close>; the two modes are
  the same function of palette and index.
\<close>

theorem getColor_cycles:
  "getColor opts i ''series'' = getColor opts i ''individual'' \<and>
   (colors opts \<noteq> [] \<longrightarrow>
      getColor opts i ''series'' = Some (colors opts ! (i mod length (colors opts))) \<and>
      getColor opts i ''individual'' = Some (colors opts ! (i mod length (colors opts))))"
  by (simp add: getColor_def cycle_def)

theorem getColor_cycles_witness:
  "colors default_options \<noteq> [] \<and> getColor default_options 9 ''series'' = Some ''#f093fb''
   \<and> getColor default_options 9 ''individual'' = Some ''#f093fb''"
  using getColor_cycles [of default_options 9] by (simp add: default_options_def)

subsection \<open>Parsing a hex colour\<close>

lemma hex_digit_round:
  assumes "is_hex_digit c"
  shows "hex_digit_value c < 16 \<and> digit_char (hex_digit_value c) = lower c"
proof -
  from assms have "c \<in> set ''0123456789abcdefABCDEF''"
    by (simp only: is_hex_digit_def)
  then show ?thesis
    unfolding list.set
    by (elim insertE emptyE) (simp_all add: hex_digit_value_def digit_char_def lower_def)
qed

lemma hex_pair:
  assumes "is_hex_digit a" "is_hex_digit b"
  shows "hex2 (parseInt16 [a, b]) = [lower a, lower b]" and "parseInt16 [a, b] \<le> 255"
proof -
  from assms have a: "hex_digit_value a < 16" "digit_char (hex_digit_value a) = lower a"
    and b: "hex_digit_value b < 16" "digit_char (hex_digit_value b) = lower b"
    using hex_digit_round by blast+
  show "hex2 (parseInt16 [a, b]) = [lower a, lower b]"
    using a b by (simp add: hex2_def parseInt16_def)
  show "parseInt16 [a, b] \<le> 255"
    using a(1) b(1) by (simp add: parseInt16_def)
qed

lemma six: "length ds = 6 \<Longrightarrow> \<exists>a b c d e f. ds = [a, b, c, d, e, f]"
  by (auto simp: length_Suc_conv eval_nat_numeral)

lemma hash_no_digit: "is_hex_digit a \<Longrightarrow> a \<noteq> CHR ''#''"
  by (auto simp: is_hex_digit_def)

lemma hex_exec_digits:
  assumes "list_all is_hex_digit [a, b, c, d, e, f]"
  shows "hex_exec [a, b, c, d, e, f] = Some ([a, b], [c, d], [e, f])"
    and "hex_exec (CHR ''#'' # [a, b, c, d, e, f]) = Some ([a, b], [c, d], [e, f])"
proof -
  from assms have "a \<noteq> CHR ''#''" using hash_no_digit by simp
  with assms show "hex_exec [a, b, c, d, e, f] = Some ([a, b], [c, d], [e, f])"
    by (simp add: hex_exec_def)
  from assms show "hex_exec (CHR ''#'' # [a, b, c, d, e, f]) = Some ([a, b], [c, d], [e, f])"
    by (simp add: hex_exec_def)
qed

lemma hex_exec_SomeD:
  assumes "hex_exec s = Some g"
  shows "valid_hex6 s"
proof -
  define t where "t = (case s of [] \<Rightarrow> [] | c # cs \<Rightarrow> if c = CHR ''#'' then cs else c # cs)"
  from assms have t: "length t = 6" "list_all is_hex_digit t"
    unfolding hex_exec_def t_def Let_def by (simp_all split: if_splits)
  have "s = t \<or> s = CHR ''#'' # t"
    unfolding t_def by (cases s) simp_all
  moreover have "set t \<subseteq> set ''0123456789abcdefABCDEF''"
    using t(2) unfolding list_all_iff is_hex_digit_def by blast
  ultimately show ?thesis
    unfolding valid_hex6_def using t(1) by blast
qed

lemma hex_exec_valid: "hex_exec s \<noteq> None \<longleftrightarrow> valid_hex6 s"
proof
  assume "hex_exec s \<noteq> None"
  then show "valid_hex6 s" using hex_exec_SomeD by blast
next
  assume "valid_hex6 s"
  then obtain ds where ds: "length ds = 6" "set ds \<subseteq> set ''0123456789abcdefABCDEF''"
    "s = ds \<or> s = CHR ''#'' # ds" unfolding valid_hex6_def by blast
  from ds(1) obtain a b c d e f where l: "ds = [a, b, c, d, e, f]" using six by blast
  from ds(2) have "list_all is_hex_digit ds" unfolding list_all_iff is_hex_digit_def by blast
  with l ds(3) show "hex_exec s \<noteq> None" using hex_exec_digits by auto
qed

lemma hexToRgb_invalid: "\<not> valid_hex6 s \<Longrightarrow> hexToRgb s = Rgb 0 0 0"
  using hex_exec_valid [of s] by (simp add: hexToRgb_def split: option.splits)

lemma hexToRgb_valid:
  assumes "valid_hex6 s"
  shows "rgbToHex (hexToRgb s) = canonical s"
    and "red (hexToRgb s) \<le> 255 \<and> green (hexToRgb s) \<le> 255 \<and> blue (hexToRgb s) \<le> 255"
proof -
  from assms obtain ds where ds: "length ds = 6" "set ds \<subseteq> set ''0123456789abcdefABCDEF''"
    "s = ds \<or> s = CHR ''#'' # ds" unfolding valid_hex6_def by blast
  from ds(1) obtain a b c d e f where l: "ds = [a, b, c, d, e, f]" using six by blast
  from ds(2) have "list_all is_hex_digit ds" unfolding list_all_iff is_hex_digit_def by blast
  with l have h: "is_hex_digit a" "is_hex_digit b" "is_hex_digit c" "is_hex_digit d"
    "is_hex_digit e" "is_hex_digit f" by simp_all
  then have all: "list_all is_hex_digit [a, b, c, d, e, f]" by simp
  have ex: "hex_exec s = Some ([a, b], [c, d], [e, f])"
    using ds(3) l hex_exec_digits [OF all] by auto
  have na: "a \<noteq> CHR ''#''" using h(1) by (rule hash_no_digit)
  have can: "canonical s = CHR ''#'' # map lower [a, b, c, d, e, f]"
    using ds(3) l na by (auto simp: canonical_def)
  show "rgbToHex (hexToRgb s) = canonical s"
    using ex can hex_pair(1) [OF h(1) h(2)] hex_pair(1) [OF h(3) h(4)] hex_pair(1) [OF h(5) h(6)]
    by (simp add: hexToRgb_def rgbToHex_def)
  show "red (hexToRgb s) \<le> 255 \<and> green (hexToRgb s) \<le> 255 \<and> blue (hexToRgb s) \<le> 255"
    using ex hex_pair(2) [OF h(1) h(2)] hex_pair(2) [OF h(3) h(4)] hex_pair(2) [OF h(5) h(6)]
    by (simp add: hexToRgb_def)
qed

lemma lt16:
  "(k::nat) < 16 \<Longrightarrow> k = 0 \<or> k = 1 \<or> k = 2 \<or> k = 3 \<or> k = 4 \<or> k = 5 \<or> k = 6 \<or> k = 7 \<or>
      k = 8 \<or> k = 9 \<or> k = 10 \<or> k = 11 \<or> k = 12 \<or> k = 13 \<or> k = 14 \<or> k = 15"
  by (simp add: less_Suc_eq eval_nat_numeral)

lemma digit_char_hex:
  assumes "k < 16"
  shows "is_hex_digit (digit_char k) \<and> hex_digit_value (digit_char k) = k"
  using lt16 [OF assms]
  by (elim disjE) (simp_all add: digit_char_def is_hex_digit_def hex_digit_value_def)

lemma parse_hex2:
  assumes "n \<le> 255"
  shows "list_all is_hex_digit (hex2 n)" and "parseInt16 (hex2 n) = n"
proof -
  from assms have d: "n div 16 < 16" and m: "n mod 16 < 16" by simp_all
  show "list_all is_hex_digit (hex2 n)"
    using digit_char_hex [OF d] digit_char_hex [OF m] by (simp add: hex2_def)
  show "parseInt16 (hex2 n) = n"
    using digit_char_hex [OF d] digit_char_hex [OF m] by (simp add: hex2_def parseInt16_def)
qed

lemma hexToRgb_rgbToHex:
  assumes "red c \<le> 255" "green c \<le> 255" "blue c \<le> 255"
  shows "hexToRgb (rgbToHex c) = c"
proof -
  have l: "length (hex2 n) = 2" for n by (simp add: hex2_def)
  have all: "list_all is_hex_digit (hex2 (red c) @ hex2 (green c) @ hex2 (blue c))"
    using parse_hex2(1) assms by simp
  have "hex_exec (rgbToHex c) = Some (hex2 (red c), hex2 (green c), hex2 (blue c))"
    using all l by (simp add: hex_exec_def rgbToHex_def)
  then show ?thesis
    using parse_hex2(2) assms by (simp add: hexToRgb_def)
qed

text \<open>
  Claim C9: for every valid 6-digit hex colour, \<^verbatim>\<open>hexToRgb\<close> parses it to the triple whose
  re-encoding as hex is the same colour (the same digits, in lower case and with \<^verbatim>\<open>#\<close>), so
  that parsing the re-encoding gives the triple again, with each channel at most 255; every
  input that is not of the 6-digit form yields black.
\<close>

theorem hexToRgb_round_trip:
  "(valid_hex6 s \<longrightarrow>
      rgbToHex (hexToRgb s) = canonical s \<and>
      hexToRgb (rgbToHex (hexToRgb s)) = hexToRgb s \<and>
      red (hexToRgb s) \<le> 255 \<and> green (hexToRgb s) \<le> 255 \<and> blue (hexToRgb s) \<le> 255) \<and>
   (\<not> valid_hex6 s \<longrightarrow> hexToRgb s = Rgb 0 0 0)"
proof (intro conjI impI)
  assume "\<not> valid_hex6 s"
  then show "hexToRgb s = Rgb 0 0 0" by (rule hexToRgb_invalid)
next
  assume v: "valid_hex6 s"
  show "rgbToHex (hexToRgb s) = canonical s" using v by (rule hexToRgb_valid(1))
  from hexToRgb_valid(2) [OF v]
  show "red (hexToRgb s) \<le> 255" "green (hexToRgb s) \<le> 255" "blue (hexToRgb s) \<le> 255"
    by simp_all
  from hexToRgb_valid(2) [OF v]
  show "hexToRgb (rgbToHex (hexToRgb s)) = hexToRgb s"
    by (intro hexToRgb_rgbToHex) simp_all
qed

theorem hexToRgb_round_trip_witness:
  "valid_hex6 ''#667EEA'' \<and> \<not> valid_hex6 ''#eee'' \<and>
   hexToRgb ''#667EEA'' = Rgb 102 126 234 \<and>
   rgbToHex (hexToRgb ''#667EEA'') = ''#667eea'' \<and>
   hexToRgb (rgbToHex (hexToRgb ''#667EEA'')) = hexToRgb ''#667EEA'' \<and>
   hexToRgb ''#eee'' = Rgb 0 0 0"
proof -
  have v: "valid_hex6 ''#667EEA''"
    unfolding valid_hex6_def by (intro exI [of _ "''667EEA''"]) simp
  have n: "\<not> valid_hex6 ''#eee''"
    unfolding valid_hex6_def by auto
  have e: "hexToRgb ''#667EEA'' = Rgb 102 126 234" by code_simp
  have c: "canonical ''#667EEA'' = ''#667eea''" by code_simp
  have l: "hexToRgb ''#667eea'' = Rgb 102 126 234" by code_simp
  from hexToRgb_round_trip [of "''#667EEA''"] hexToRgb_round_trip [of "''#eee''"] v n e c l
  show ?thesis by simp
qed

subsection \<open>Shades\<close>

lemma fl_0: "fl 0 = 0"
  by (simp add: fl_def)

lemma log2i_le: "n < 2 ^ Suc k \<Longrightarrow> log2i n \<le> int k"
proof (induction k arbitrary: n)
  case 0
  then show ?case by (simp add: log2i.simps)
next
  case (Suc k)
  show ?case
  proof (cases "n < 2")
    case True
    then show ?thesis by (simp add: log2i.simps)
  next
    case False
    from Suc.prems have "n div 2 < 2 ^ Suc k" by simp
    then have "log2i (n div 2) \<le> int k" by (rule Suc.IH)
    with False show ?thesis by (subst log2i.simps) simp
  qed
qed

lemma round_even_int: "round_even (of_int k) = k"
  by (simp add: round_even_def)

lemma fl_int:
  assumes "ilog2 \<bar>of_int k\<bar> \<le> 52"
  shows "fl (of_int k) = of_int k"
proof (cases "k = 0")
  case True
  then show ?thesis by (simp add: fl_def)
next
  case False
  define m where "m = nat (52 - ilog2 \<bar>of_int k\<bar>)"
  have u: "pow2 (ilog2 \<bar>of_int k\<bar> - 52) = 1 / 2 ^ m"
    using assms unfolding pow2_def m_def
    by (cases "ilog2 \<bar>of_int k\<bar> = 52") simp_all
  have "(of_int k :: rat) / (1 / 2 ^ m) = of_int (k * 2 ^ m)" by simp
  then have "round_even (of_int k / (1 / 2 ^ m)) = k * 2 ^ m"
    by (simp only: round_even_int)
  then show ?thesis
    using False u by (simp add: fl_def)
qed

lemma ilog2_nat_le:
  assumes "c < 2 ^ Suc k"
  shows "ilog2 \<bar>of_nat c\<bar> \<le> int k"
proof -
  have q: "quotient_of \<bar>of_nat c :: rat\<bar> = (int c, 1)"
    by simp
  have "int c < int (2 ^ Suc k)"
    using assms by (simp only: of_nat_less_iff)
  then have "int c < 2 ^ Suc k" by simp
  then have "log2i (int c) \<le> int k" by (rule log2i_le)
  moreover have "log2i 1 = 0" by (simp add: log2i.simps)
  ultimately show ?thesis
    unfolding ilog2_def q by (simp add: Let_def)
qed

lemma fl_channel: "c \<le> 255 \<Longrightarrow> fl (of_nat c) = of_nat c"
proof -
  assume "c \<le> 255"
  then have "c < 2 ^ Suc 7" by simp
  then have "ilog2 \<bar>of_nat c :: rat\<bar> \<le> 7" using ilog2_nat_le by fastforce
  then have "ilog2 \<bar>of_int (int c) :: rat\<bar> \<le> 52" by simp
  then have "fl (of_int (int c)) = of_int (int c)" by (rule fl_int)
  then show ?thesis by simp
qed

lemma fl_1: "fl 1 = 1"
  using fl_channel [of 1] by simp

lemma Math_round_int: "Math_round (of_int k) = k"
  unfolding Math_round_def by (rule floor_unique) simp_all

lemma scale_channel_zero: "scale_channel 0 f = 0"
  using Math_round_int [of 0] by (simp add: scale_channel_def fmul_def fl_0)

lemma scale_channel_le: "scale_channel c f \<le> 255"
  by (simp add: scale_channel_def)

lemma scale_channel_one: "c \<le> 255 \<Longrightarrow> scale_channel c (fsub 1 (fmul 0 x)) = c"
  using Math_round_int [of "int c"]
  by (simp add: scale_channel_def fmul_def fsub_def fl_0 fl_1 fl_channel)


lemma shade_black:
  assumes "\<not> valid_hex6 (string_of_arg (first_color (colors opts)))"
  shows "getColor opts i ''shade'' = Some ''rgb(0,0,0)''"
  using hexToRgb_invalid [OF assms]
  by (simp add: getColor_def adjustBrightness_def scale_channel_zero rgb_text_def show_nat.simps digit_char_def)

text \<open>
  Claim C5, as amended: for every palette whose first colour is a valid 6-digit hex colour and
  every index \<open>i\<close>, \<^verbatim>\<open>getColor\<close> in mode \<^verbatim>\<open>shade\<close> returns the text \<^verbatim>\<open>rgb(r,g,b)\<close> in which
  each channel is the base channel times the factor \<open>1 - 0.15 * i\<close>, evaluated in double
  arithmetic, rounded and clamped to \<open>[0, 255]\<close>; at \<open>i = 0\<close> the channels are those of the
  base colour. For a first colour of any other form the base is read as black, and the result
  is \<^verbatim>\<open>rgb(0,0,0)\<close> at every index.
\<close>

theorem getColor_shade:
  "(valid_hex6 base \<longrightarrow>
      getColor (opts\<lparr>colors := base # rest\<rparr>) i ''shade'' =
        Some (rgb_text (shade_channel (red (hexToRgb base)) i)
                (shade_channel (green (hexToRgb base)) i)
                (shade_channel (blue (hexToRgb base)) i)) \<and>
      shade_channel (red (hexToRgb base)) i \<le> 255 \<and>
      shade_channel (green (hexToRgb base)) i \<le> 255 \<and>
      shade_channel (blue (hexToRgb base)) i \<le> 255 \<and>
      getColor (opts\<lparr>colors := base # rest\<rparr>) 0 ''shade'' =
        Some (rgb_text (red (hexToRgb base)) (green (hexToRgb base)) (blue (hexToRgb base)))) \<and>
   (\<not> valid_hex6 base \<longrightarrow>
      getColor (opts\<lparr>colors := base # rest\<rparr>) i ''shade'' = Some ''rgb(0,0,0)'')"
proof (intro conjI impI)
  assume "\<not> valid_hex6 base"
  then show "getColor (opts\<lparr>colors := base # rest\<rparr>) i ''shade'' = Some ''rgb(0,0,0)''"
    by (intro shade_black) (simp add: first_color_def string_of_arg_def)
next
  assume v: "valid_hex6 base"
  have sc: "scale_channel c (fsub 1 (fmul (of_nat i) lit_0_15)) = shade_channel c i" for c
    by (simp add: scale_channel_def shade_channel_def shade_factor_def fmul_def fsub_def
        lit_0_15_def Math_round_def)
  show "getColor (opts\<lparr>colors := base # rest\<rparr>) i ''shade'' =
        Some (rgb_text (shade_channel (red (hexToRgb base)) i)
                (shade_channel (green (hexToRgb base)) i)
                (shade_channel (blue (hexToRgb base)) i))"
    by (simp add: getColor_def adjustBrightness_def first_color_def string_of_arg_def sc Let_def)
  show "shade_channel (red (hexToRgb base)) i \<le> 255"
    "shade_channel (green (hexToRgb base)) i \<le> 255"
    "shade_channel (blue (hexToRgb base)) i \<le> 255"
    by (simp_all add: shade_channel_def)
  from hexToRgb_valid(2) [OF v]
  show "getColor (opts\<lparr>colors := base # rest\<rparr>) 0 ''shade'' =
        Some (rgb_text (red (hexToRgb base)) (green (hexToRgb base)) (blue (hexToRgb base)))"
    using scale_channel_one [of _ lit_0_15]
    by (simp add: getColor_def adjustBrightness_def first_color_def string_of_arg_def Let_def)
qed

theorem getColor_shade_witness:
  "valid_hex6 ''#2d55a5'' \<and> \<not> valid_hex6 ''#eee'' \<and>
   getColor (default_options\<lparr>colors := [''#2d55a5'']\<rparr>) 2 ''shade'' = Some ''rgb(31,59,115)'' \<and>
   getColor (default_options\<lparr>colors := [''#2d55a5'']\<rparr>) 0 ''shade'' = Some ''rgb(45,85,165)'' \<and>
   getColor (default_options\<lparr>colors := [''#eee'']\<rparr>) 2 ''shade'' = Some ''rgb(0,0,0)''"
proof -
  have v: "valid_hex6 ''#2d55a5''"
    unfolding valid_hex6_def by (intro exI [of _ "''2d55a5''"]) simp
  have n: "\<not> valid_hex6 ''#eee''"
    unfolding valid_hex6_def by auto
  have e: "hexToRgb ''#2d55a5'' = Rgb 45 85 165" by code_simp
  have s: "shade_channel 45 2 = 31" "shade_channel 85 2 = 59" "shade_channel 165 2 = 115"
    by code_simp+
  have t: "rgb_text 31 59 115 = ''rgb(31,59,115)''" "rgb_text 45 85 165 = ''rgb(45,85,165)''"
    by code_simp+
  from getColor_shade [where base = "''#2d55a5''" and opts = default_options and rest = "[]" and i = 2]
    getColor_shade [where base = "''#eee''" and opts = default_options and rest = "[]" and i = 2]
    v n e s t
  show ?thesis by simp
qed

text \<open>
  Claim C5 as stated fails. With the palette \<^verbatim>\<open>['#eee']\<close> (the light grey that the dark theme
  uses for text) the shade at index 0 is black, not the base colour. And the factor is not
  applied in exact arithmetic: for the channel 45 at index 2 the exact product is 31.5, which
  rounds to 32, while the double product lies just below and the code returns 31.
\<close>

theorem getColor_shade_counterexample:
  "getColor (default_options\<lparr>colors := [''#eee'']\<rparr>) 0 ''shade'' = Some ''rgb(0,0,0)'' \<and>
   getColor (default_options\<lparr>colors := [''#eee'']\<rparr>) 0 ''shade'' \<noteq> Some ''#eee'' \<and>
   getColor (default_options\<lparr>colors := [''#2d55a5'']\<rparr>) 2 ''shade'' = Some ''rgb(31,59,115)'' \<and>
   shade_channel_exact 45 2 = 32 \<and> shade_channel_exact 85 2 = 60 \<and>
   shade_channel_exact 165 2 = 116"
  by code_simp

subsection \<open>The donut's total\<close>

text \<open>
  On entries that are bare numbers, and on any entries whose values all read as numbers, the
  total is the sum.
\<close>

lemma foldl_js_add_numbers:
  "foldl (\<lambda>sum item. js_add sum (entry_value item)) (Number a) (map Bare ns) = Number (a + sum_list ns)"
  by (induction ns arbitrary: a) (simp_all add: add.assoc)

lemma donut_total_numbers: "donut_total (map Bare ns) = Number (sum_list ns)"
  using foldl_js_add_numbers [of 0 ns] by (simp add: donut_total_def)

lemma foldl_js_add_values:
  assumes "\<forall>e \<in> set items. entry_value e = Number (f e)"
  shows "foldl (\<lambda>sum item. js_add sum (entry_value item)) (Number a) items
           = Number (a + sum_list (map f items))"
  using assms by (induction items arbitrary: a) (simp_all add: add.assoc)

lemma donut_total_values:
  "\<forall>e \<in> set items. entry_value e = Number (f e) \<Longrightarrow>
     donut_total items = Number (sum_list (map f items))"
  using foldl_js_add_values [of items f 0] by (simp add: donut_total_def)

lemma donut_scenario:
  "donut_center_text [Record None (Some 45), Record None (Some 35), Record None (Some 20)] = ''100''"
  by code_simp

text \<open>
  Claim C8: the text at the centre of the donut is the exact sum of the input values. The code
  does not do this when a record has the value 0: the entry reads as the record itself (see
  claim C3), and \<^verbatim>\<open>sum + item\<close> concatenates text.
\<close>

theorem donut_center_text_zero_entry:
  "donut_center_text [Record (Some ''Desktop'') (Some 45), Record (Some ''Mobile'') (Some 0)]
     = ''45[object Object]''"
  by code_simp

subsection \<open>The waterfall's running totals\<close>

text \<open>
  On values that are numbers, the running total at position \<open>k\<close> is the sum of the first
  \<open>k + 1\<close> values, and the bounds of the range are the maximum of the totals and the minimum
  of the totals and 0.
\<close>

lemma cumulative_snoc:
  "cumulative (vs @ [v]) =
     cumulative vs @ [if length vs = 0 then v else js_add (cumulative vs ! (length vs - 1)) v]"
  by (simp add: cumulative_def enumerate_append_eq push_total_def)

lemma length_cumulative: "length (cumulative vs) = length vs"
  by (induction vs rule: rev_induct) (simp_all add: cumulative_snoc, simp add: cumulative_def)

lemma cumulative_numbers:
  "cumulative (map Number ns) = map (\<lambda>k. Number (sum_list (take (Suc k) ns))) [0..<length ns]"
proof (induction ns rule: rev_induct)
  case Nil
  show ?case by (simp add: cumulative_def)
next
  case (snoc n ns)
  have "cumulative (map Number (ns @ [n])) =
          cumulative (map Number ns) @
            [if ns = [] then Number n
             else js_add (cumulative (map Number ns) ! (length ns - 1)) (Number n)]"
    using cumulative_snoc [of "map Number ns" "Number n"] by simp
  also have "(if ns = [] then Number n
              else js_add (cumulative (map Number ns) ! (length ns - 1)) (Number n))
             = Number (sum_list (ns @ [n]))"
  proof (cases "ns = []")
    case True
    then show ?thesis by simp
  next
    case False
    then have "length ns - 1 < length ns" by simp
    then have "cumulative (map Number ns) ! (length ns - 1) = Number (sum_list ns)"
      using False by (simp add: snoc.IH Suc_diff_Suc)
    with False show ?thesis by simp
  qed
  finally show ?case by (simp add: snoc.IH)
qed

lemma foldl_max2_Fin:
  "foldl max2 (Fin a) (map Fin ns) = Fin (Max (insert a (set ns)))"
proof (induction ns arbitrary: a)
  case Nil
  show ?case by simp
next
  case (Cons n ns)
  have "Max (insert (max a n) (set ns)) = Max (insert a (insert n (set ns)))"
    by (cases ns) (simp_all add: max.assoc)
  then show ?case by (simp add: Cons.IH)
qed

lemma foldl_min2_Fin:
  "foldl min2 (Fin a) (map Fin ns) = Fin (Min (insert a (set ns)))"
proof (induction ns arbitrary: a)
  case Nil
  show ?case by simp
next
  case (Cons n ns)
  have "Min (insert (min a n) (set ns)) = Min (insert a (insert n (set ns)))"
    by (cases ns) (simp_all add: min.assoc)
  then show ?case by (simp add: Cons.IH)
qed

lemma to_number_Number: "map to_number (map Number ns) = map Fin ns"
  by simp

lemma Math_max_numbers: "ns \<noteq> [] \<Longrightarrow> Math_max (map Number ns) = Fin (Max (set ns))"
  using foldl_max2_Fin [of "hd ns" "tl ns"]
  by (cases ns) (simp_all add: Math_max_def to_number_Number del: map_map)

lemma Math_min_0_numbers: "Math_min_0 (map Number ns) = Fin (Min (insert 0 (set ns)))"
  unfolding Math_min_0_def to_number_Number by (rule foldl_min2_Fin)

lemma waterfall_numbers:
  assumes "k < length ns"
  shows "waterfall_cumulative (map Bare ns) ! k = Number (sum_list (take (Suc k) ns))"
    and "waterfall_maxValue (map Bare ns) =
           Fin (Max ((\<lambda>k. sum_list (take (Suc k) ns)) ` {0..<length ns}))"
    and "waterfall_minValue (map Bare ns) =
           Fin (Min (insert 0 ((\<lambda>k. sum_list (take (Suc k) ns)) ` {0..<length ns})))"
proof -
  let ?sums = "map (\<lambda>k. sum_list (take (Suc k) ns)) [0..<length ns]"
  have v: "waterfall_values (map Bare ns) = map Number ns"
    by (simp add: waterfall_values_def)
  have c: "waterfall_cumulative (map Bare ns) = map Number ?sums"
    unfolding waterfall_cumulative_def v cumulative_numbers by simp
  show "waterfall_cumulative (map Bare ns) ! k = Number (sum_list (take (Suc k) ns))"
    using assms unfolding c by simp
  from assms have ne: "?sums \<noteq> []" by auto
  show "waterfall_maxValue (map Bare ns) =
          Fin (Max ((\<lambda>k. sum_list (take (Suc k) ns)) ` {0..<length ns}))"
    unfolding waterfall_maxValue_def c using Math_max_numbers [OF ne] by simp
  show "waterfall_minValue (map Bare ns) =
          Fin (Min (insert 0 ((\<lambda>k. sum_list (take (Suc k) ns)) ` {0..<length ns})))"
    unfolding waterfall_minValue_def c using Math_min_0_numbers [of ?sums] by simp
qed

lemma waterfall_bare:
  "waterfall_cumulative [Bare 100, Bare 0, Bare (- 30)] = [Number 100, Number 100, Number 70]"
  "waterfall_maxValue [Bare 100, Bare 0, Bare (- 30)] = Fin 100"
  "waterfall_minValue [Bare 100, Bare 0, Bare (- 30)] = Fin 0"
  by code_simp+


text \<open>
  Claim C6: the waterfall's cumulative sequence at position \<open>k\<close> is the sum of the first
  \<open>k + 1\<close> values, and the range spans from the minimum of the totals and 0 to the maximum of
  the totals. The code does not do this when a record has the value 0: the entry reads as the
  record itself (see claim C3), the totals from there on are text, and both bounds are
  \<^verbatim>\<open>NaN\<close>.
\<close>

theorem waterfall_zero_entry:
  "waterfall_cumulative
     [Record (Some ''Start'') (Some 100), Record (Some ''Flat'') (Some 0),
      Record (Some ''Drop'') (Some (- 30))]
     = [Number 100, Str ''100[object Object]'', Str ''100[object Object]-30''] \<and>
   waterfall_maxValue
     [Record (Some ''Start'') (Some 100), Record (Some ''Flat'') (Some 0),
      Record (Some ''Drop'') (Some (- 30))] = NaN \<and>
   waterfall_minValue
     [Record (Some ''Start'') (Some 100), Record (Some ''Flat'') (Some 0),
      Record (Some ''Drop'') (Some (- 30))] = NaN"
  by code_simp


subsection \<open>Theme resolution and reconfiguration\<close>

lemma applyTheme_custom:
  "customTheme opts = Some ct \<Longrightarrow>
     backgroundColor (applyTheme opts) = or_else (ct_backgroundColor ct) (backgroundColor opts) \<and>
     textColor (applyTheme opts) = or_else (ct_textColor ct) (textColor opts) \<and>
     gridColor (applyTheme opts) = or_else (ct_gridColor ct) (Some ''rgba(128, 128, 128, 0.2)'')"
  by (simp add: applyTheme_def)

lemma applyTheme_explicit:
  assumes "customTheme opts = None"
  shows "truthy (backgroundColor opts) \<Longrightarrow> backgroundColor opts \<noteq> Some ''#ffffff'' \<Longrightarrow>
           backgroundColor (applyTheme opts) = backgroundColor opts"
    and "truthy (textColor opts) \<Longrightarrow> textColor opts \<noteq> Some ''#333333'' \<Longrightarrow>
           textColor (applyTheme opts) = textColor opts"
  using assms by (simp_all add: applyTheme_def split: prod.splits)

lemma applyTheme_table:
  assumes "customTheme opts = None" "map_of themes (theme opts) = Some (bg, tx, gr)"
  shows "\<not> truthy (backgroundColor opts) \<or> backgroundColor opts = Some ''#ffffff'' \<Longrightarrow>
           backgroundColor (applyTheme opts) = Some bg"
    and "\<not> truthy (textColor opts) \<or> textColor opts = Some ''#333333'' \<Longrightarrow>
           textColor (applyTheme opts) = Some tx"
    and "gridColor (applyTheme opts) = Some gr"
  using assms by (auto simp: applyTheme_def theme_of_def get_prop_def theme_fields_def)

lemma applyTheme_fallback:
  assumes "customTheme opts = None" "map_of themes (theme opts) = None"
  shows "\<not> truthy (backgroundColor opts) \<or> backgroundColor opts = Some ''#ffffff'' \<Longrightarrow>
           backgroundColor (applyTheme opts) =
             (if theme opts \<in> set object_prototype_keys then None else Some ''#1a1a2e'')"
    and "\<not> truthy (textColor opts) \<or> textColor opts = Some ''#333333'' \<Longrightarrow>
           textColor (applyTheme opts) =
             (if theme opts \<in> set object_prototype_keys then None else Some ''#eee'')"
    and "gridColor (applyTheme opts) =
             (if theme opts \<in> set object_prototype_keys then None else Some ''#2a2a3e'')"
  using assms by (auto simp: applyTheme_def theme_of_def get_prop_def theme_fields_def dark_def)

lemma lite_then_dark:
  assumes "containerId \<in> set document"
  shows "\<exists>c c'. constructor document containerId [Set_theme ''lite''] = Inr c \<and>
           backgroundColor (options c) = Some ''#ffffff'' \<and>
           textColor (options c) = Some ''#333333'' \<and>
           gridColor (options c) = Some ''#e0e0e0'' \<and>
           updateOptions c [Set_theme ''dark''] = Inr c' \<and>
           backgroundColor (options c') = Some ''#1a1a2e'' \<and>
           textColor (options c') = Some ''#eee'' \<and>
           gridColor (options c') = Some ''#2a2a3e''"
  using assms
  by (simp add: constructor_def updateOptions_def init_def createCanvas_def applyTheme_def
      theme_of_def get_prop_def themes_def dark_def theme_fields_def spread_def default_options_def
      showPlaceholder_m_def truthy_def Let_def)

text \<open>
  Claim C7: an instance constructed with \<^verbatim>\<open>{theme: 'lite'}\<close> and then reconfigured with
  \<^verbatim>\<open>{theme: 'dark'}\<close> has the background, text and grid colours of the dark theme. The
  colours follow the precedence: a custom theme first (a field it lacks keeps the current
  colour, the grid a fixed fallback); else a background or text colour that is set and is not
  the built-in default; else the entry of the theme table; and for a tag that the table lacks,
  the dark theme (unless the tag names a member that every object inherits, for which the
  lookup finds that member and the colours are undefined).
\<close>

theorem reconfigure_lite_dark:
  "(containerId \<in> set document \<longrightarrow>
      (\<exists>c c'. constructor document containerId [Set_theme ''lite''] = Inr c \<and>
           backgroundColor (options c) = Some ''#ffffff'' \<and>
           textColor (options c) = Some ''#333333'' \<and>
           gridColor (options c) = Some ''#e0e0e0'' \<and>
           updateOptions c [Set_theme ''dark''] = Inr c' \<and>
           backgroundColor (options c') = Some ''#1a1a2e'' \<and>
           textColor (options c') = Some ''#eee'' \<and>
           gridColor (options c') = Some ''#2a2a3e'')) \<and>
   (customTheme opts = Some ct \<longrightarrow>
      backgroundColor (applyTheme opts) = or_else (ct_backgroundColor ct) (backgroundColor opts) \<and>
      textColor (applyTheme opts) = or_else (ct_textColor ct) (textColor opts) \<and>
      gridColor (applyTheme opts) = or_else (ct_gridColor ct) (Some ''rgba(128, 128, 128, 0.2)'')) \<and>
   (customTheme opts = None \<and> truthy (backgroundColor opts) \<and>
      backgroundColor opts \<noteq> Some ''#ffffff'' \<longrightarrow>
      backgroundColor (applyTheme opts) = backgroundColor opts) \<and>
   (customTheme opts = None \<and> truthy (textColor opts) \<and> textColor opts \<noteq> Some ''#333333'' \<longrightarrow>
      textColor (applyTheme opts) = textColor opts) \<and>
   (customTheme opts = None \<and> map_of themes (theme opts) = Some (bg, tx, gr) \<longrightarrow>
      gridColor (applyTheme opts) = Some gr \<and>
      (\<not> truthy (backgroundColor opts) \<or> backgroundColor opts = Some ''#ffffff'' \<longrightarrow>
         backgroundColor (applyTheme opts) = Some bg) \<and>
      (\<not> truthy (textColor opts) \<or> textColor opts = Some ''#333333'' \<longrightarrow>
         textColor (applyTheme opts) = Some tx)) \<and>
   (customTheme opts = None \<and> map_of themes (theme opts) = None \<longrightarrow>
      gridColor (applyTheme opts) =
        (if theme opts \<in> set object_prototype_keys then None else Some ''#2a2a3e'') \<and>
      (\<not> truthy (backgroundColor opts) \<or> backgroundColor opts = Some ''#ffffff'' \<longrightarrow>
         backgroundColor (applyTheme opts) =
           (if theme opts \<in> set object_prototype_keys then None else Some ''#1a1a2e'')) \<and>
      (\<not> truthy (textColor opts) \<or> textColor opts = Some ''#333333'' \<longrightarrow>
         textColor (applyTheme opts) =
           (if theme opts \<in> set object_prototype_keys then None else Some ''#eee'')))"
  using lite_then_dark [of containerId document] applyTheme_custom [of opts ct]
    applyTheme_explicit [of opts] applyTheme_table [of opts bg tx gr] applyTheme_fallback [of opts]
  by blast

theorem reconfigure_lite_dark_witness:
  "''chart1'' \<in> set [''chart1''] \<and>
   (\<exists>c c'. constructor [''chart1''] ''chart1'' [Set_theme ''lite''] = Inr c \<and>
      updateOptions c [Set_theme ''dark''] = Inr c' \<and>
      backgroundColor (options c') = Some ''#1a1a2e'' \<and>
      textColor (options c') = Some ''#eee'' \<and>
      gridColor (options c') = Some ''#2a2a3e'') \<and>
   backgroundColor (applyTheme (default_options\<lparr>customTheme := Some (Custom (Some ''#000000'') None None)\<rparr>))
     = Some ''#000000'' \<and>
   textColor (applyTheme (default_options\<lparr>customTheme := Some (Custom (Some ''#000000'') None None)\<rparr>))
     = Some ''#333333'' \<and>
   gridColor (applyTheme (default_options\<lparr>customTheme := Some (Custom (Some ''#000000'') None None)\<rparr>))
     = Some ''rgba(128, 128, 128, 0.2)'' \<and>
   backgroundColor (applyTheme (default_options\<lparr>backgroundColor := Some ''#123456'',
       textColor := Some ''#abcdef'', theme := ''lite''\<rparr>)) = Some ''#123456'' \<and>
   textColor (applyTheme (default_options\<lparr>backgroundColor := Some ''#123456'',
       textColor := Some ''#abcdef'', theme := ''lite''\<rparr>)) = Some ''#abcdef'' \<and>
   gridColor (applyTheme (default_options\<lparr>backgroundColor := Some ''#123456'',
       textColor := Some ''#abcdef'', theme := ''lite''\<rparr>)) = Some ''#e0e0e0'' \<and>
   backgroundColor (applyTheme (default_options\<lparr>theme := ''glass''\<rparr>))
     = Some ''rgba(255, 255, 255, 0.1)'' \<and>
   textColor (applyTheme (default_options\<lparr>theme := ''glass''\<rparr>)) = Some ''#333333'' \<and>
   backgroundColor (applyTheme (default_options\<lparr>theme := ''neon''\<rparr>)) = Some ''#1a1a2e'' \<and>
   textColor (applyTheme (default_options\<lparr>theme := ''neon''\<rparr>)) = Some ''#eee'' \<and>
   gridColor (applyTheme (default_options\<lparr>theme := ''neon''\<rparr>)) = Some ''#2a2a3e''"
proof -
  let ?custom = "default_options\<lparr>customTheme := Some (Custom (Some ''#000000'') None None)\<rparr>"
  let ?explicit = "default_options\<lparr>backgroundColor := Some ''#123456'',
       textColor := Some ''#abcdef'', theme := ''lite''\<rparr>"
  let ?glass = "default_options\<lparr>theme := ''glass''\<rparr>"
  let ?neon = "default_options\<lparr>theme := ''neon''\<rparr>"
  have a: "''chart1'' \<in> set [''chart1'']" by simp
  have s: "\<exists>c c'. constructor [''chart1''] ''chart1'' [Set_theme ''lite''] = Inr c \<and>
      updateOptions c [Set_theme ''dark''] = Inr c' \<and>
      backgroundColor (options c') = Some ''#1a1a2e'' \<and>
      textColor (options c') = Some ''#eee'' \<and>
      gridColor (options c') = Some ''#2a2a3e''"
    using reconfigure_lite_dark [where containerId = "''chart1''" and document = "[''chart1'']"] a
    by blast
  have c: "backgroundColor (applyTheme ?custom) = Some ''#000000''"
      "textColor (applyTheme ?custom) = Some ''#333333''"
      "gridColor (applyTheme ?custom) = Some ''rgba(128, 128, 128, 0.2)''"
    using reconfigure_lite_dark [where opts = ?custom and ct = "Custom (Some ''#000000'') None None"]
    by (simp_all add: default_options_def or_else_def truthy_def)
  have e: "backgroundColor (applyTheme ?explicit) = Some ''#123456''"
      "textColor (applyTheme ?explicit) = Some ''#abcdef''"
      "gridColor (applyTheme ?explicit) = Some ''#e0e0e0''"
    using reconfigure_lite_dark [where opts = ?explicit and bg = "''#ffffff''"
        and tx = "''#333333''" and gr = "''#e0e0e0''"]
    by (simp_all add: default_options_def truthy_def themes_def)
  have g: "backgroundColor (applyTheme ?glass) = Some ''rgba(255, 255, 255, 0.1)''"
      "textColor (applyTheme ?glass) = Some ''#333333''"
    using reconfigure_lite_dark [where opts = ?glass and bg = "''rgba(255, 255, 255, 0.1)''"
        and tx = "''#333333''" and gr = "''rgba(0,0,0,0.05)''"]
    by (simp_all add: default_options_def truthy_def themes_def)
  have n: "backgroundColor (applyTheme ?neon) = Some ''#1a1a2e''"
      "textColor (applyTheme ?neon) = Some ''#eee''"
      "gridColor (applyTheme ?neon) = Some ''#2a2a3e''"
    using reconfigure_lite_dark [where opts = ?neon]
    by (simp_all add: default_options_def truthy_def themes_def object_prototype_keys_def)
  from a s c e g n show ?thesis by blast
qed

subsection \<open>Rendering\<close>

text \<open>
  The routines that \<^verbatim>\<open>render\<close> dispatches to leave the instance as it is. Whenever the
  legend is due, \<^verbatim>\<open>render\<close> ends in an exception: either an earlier step throws, or the
  call of the undeclared method \<^verbatim>\<open>drawExternalLegend\<close> does.
\<close>

lemma keeps_paints: "keeps paints"
  by (simp add: keeps_def paints_def)

lemma keeps_chartTypes: "map_of chartTypes t = Some f \<Longrightarrow> keeps f"
  unfolding chartTypes_def
  by (auto simp: keeps_def drawBar_def drawHorizontalBar_def drawLine_def drawArea_def
      drawPie_def drawDonut_def drawRadar_def drawHeatmap_def drawGauge_def drawWaterfall_def
      drawScatter_def drawBubble_def drawPolar_def drawTreemap_def paints_def
      split: if_splits)

lemma keeps_call_inherited: "keeps (call_inherited k)"
  by (simp add: keeps_def call_inherited_def)

lemma keeps_dispatch:
  "(case get_prop chartTypes t of Own draw \<Rightarrow> draw c | Inherited k \<Rightarrow> call_inherited k c
      | Absent \<Rightarrow> Inr c) = Inr c' \<Longrightarrow> c' = c"
  using keeps_chartTypes [of t] keeps_call_inherited
  by (auto simp: get_prop_def keeps_def split: option.splits if_splits)

lemma no_drawExternalLegend:
  "call_method ''drawExternalLegend'' c = Inl (TypeError ''this.drawExternalLegend is not a function'')"
  by (simp add: call_method_def methods_def)

lemma call_clear: "call_method ''clear'' c = paints c"
  by (simp add: call_method_def methods_def clear_def)

lemma call_drawTitle: "call_method ''drawTitle'' c = paints c"
  by (simp add: call_method_def methods_def drawTitle_def)

lemma render_legend:
  assumes "\<not> isLoading c" "showLegend (options c)" "data (options c) \<noteq> []"
  shows "\<exists>e. render c = Inl e"
proof (cases "has_canvas c")
  case False
  with assms(1) show ?thesis
    by (simp add: render_def call_clear paints_def and_then_def)
next
  case True
  let ?d = "case get_prop chartTypes (type (options c)) of Own draw \<Rightarrow> draw c
            | Inherited k \<Rightarrow> call_inherited k c | Absent \<Rightarrow> Inr c"
  have r: "render c = and_then ?d (\<lambda>c. if showLegend (options c) \<and> 0 < length (data (options c))
        then call_method ''drawExternalLegend'' c else Inr c)"
    using assms(1) True
    by (simp add: render_def call_clear call_drawTitle paints_def and_then_def)
  show ?thesis
  proof (cases ?d)
    case (Inl e)
    then show ?thesis unfolding r by (simp add: and_then_def)
  next
    case (Inr c')
    then have "c' = c" by (rule keeps_dispatch)
    with Inr assms show ?thesis unfolding r
      by (simp add: and_then_def no_drawExternalLegend)
  qed
qed

text \<open>
  With the default options the canvas only comes into being through \<^verbatim>\<open>loadData\<close> (or a
  later \<^verbatim>\<open>updateOptions\<close>); the rendering that follows then reaches the legend and throws.
\<close>

lemma render_after_loadData:
  assumes "constructor [''chart1''] ''chart1'' [] = Inr c"
  shows "loadData_timeout (loadData (hidePlaceholder c) [Record (Some ''Jan'') (Some 45)])
           = Inl (TypeError ''this.drawExternalLegend is not a function'')"
proof -
  from assms have c: "c = \<lparr>options = applyTheme default_options, has_canvas = False,
      isLoading = True\<rparr>"
    by (simp add: constructor_def init_def createCanvas_def spread_def showPlaceholder_m_def
        default_options_def)
  show ?thesis
    unfolding c
    by (simp add: loadData_timeout_def loadData_def hidePlaceholder_def showPlaceholder_m_def
        createCanvas_def applyTheme_def theme_of_def get_prop_def themes_def dark_def
        theme_fields_def default_options_def truthy_def and_then_def render_def
        call_method_def methods_def clear_def paints_def chartTypes_def drawBar_def)
qed

text \<open>
  Claim C2: \<^verbatim>\<open>render\<close> never raises; in particular, with the legend enabled and data
  present it completes by drawing the legend. The code does not do this. An instance
  constructed without placeholder and with one entry throws when its first rendering reaches
  the legend, because the class declares no method \<^verbatim>\<open>drawExternalLegend\<close>; and with the
  default options (placeholder shown) the first rendering throws already in \<^verbatim>\<open>clear\<close>,
  because \<^verbatim>\<open>createCanvas\<close> returned early and \<^verbatim>\<open>this.ctx\<close> is still \<^verbatim>\<open>null\<close>.
\<close>

theorem render_raises:
  "and_then (constructor [''chart1''] ''chart1''
               [Set_showPlaceholder False, Set_data [Record (Some ''Jan'') (Some 45)]])
     init_timeout = Inl (TypeError ''this.drawExternalLegend is not a function'') \<and>
   and_then (constructor [''chart1''] ''chart1'' [Set_data [Record (Some ''Jan'') (Some 45)]])
     init_timeout = Inl (TypeError ''Cannot read properties of null'')"
  by (simp add: constructor_def init_timeout_def init_def createCanvas_def applyTheme_def
      theme_of_def get_prop_def themes_def dark_def theme_fields_def spread_def default_options_def
      showPlaceholder_m_def hidePlaceholder_def truthy_def Let_def and_then_def render_def
      call_method_def methods_def clear_def paints_def chartTypes_def drawBar_def)

subsection \<open>Construction\<close>

text \<open>
  The constructor throws its \<^verbatim>\<open>Error\<close> exactly when the container is missing; that is
  the only \<^verbatim>\<open>throw\<close> statement of the class.
\<close>

lemma constructor_missing:
  "containerId \<notin> set document \<Longrightarrow> constructor document containerId opts = Inl (not_found containerId)"
  by (simp add: constructor_def)

lemma constructor_Error:
  "constructor document containerId opts = Inl (Error m) \<longleftrightarrow>
     containerId \<notin> set document \<and> Error m = not_found containerId"
  by (auto simp: constructor_def init_def createCanvas_def Let_def not_found_def split: if_splits option.splits)

text \<open>
  Claim C10: construction raises an error if and only if the container does not exist. The
  code does not do this: with the placeholder disabled and a theme tag that names an inherited
  member, such as \<^verbatim>\<open>constructor\<close>, the lookup \<^verbatim>\<open>themes[theme] || themes.dark\<close> finds the
  member instead of falling back, the background colour becomes \<^verbatim>\<open>undefined\<close>, and
  \<^verbatim>\<open>createCanvas\<close> throws although the container exists.
\<close>

theorem constructor_inherited_theme:
  "constructor [''chart1''] ''chart1'' [Set_theme ''constructor'', Set_showPlaceholder False]
     = Inl (TypeError ''Cannot read properties of undefined (reading includes)'')"
  by (simp add: constructor_def init_def createCanvas_def applyTheme_def
      theme_of_def get_prop_def themes_def dark_def theme_fields_def spread_def default_options_def
      object_prototype_keys_def truthy_def Let_def)


end
